theory Spec2Isabelle
  imports Main "HOL-Library.Finite_Map" "HOL-Library.Sublist"
begin

section \<open>Python values used by \<open>beeswarm/drones/drone.py\<close>\<close>

text \<open>
  A configuration is the value that \<open>json.loads\<close> returns: dictionaries compare
  independently of key order, so a dictionary is a finite map. A float is given by its
  exact value; NaN and the infinities, which JSON does not have, are left out.
\<close>

datatype json =
    JNull
  | JBool bool
  | JInt int
  | JFloat rat
  | JStr string
  | JList "json list"
  | JDict "(string, json) fmap"

text \<open>
  Python's \<open>==\<close> on these values: booleans, integers and floats compare by number
  (\<open>True == 1 == 1.0\<close>), lists element by element, dictionaries key by key; values of
  different kinds are unequal. \<open>a != b\<close> is its negation.
\<close>

primrec py_eq :: "json \<Rightarrow> json \<Rightarrow> bool" where
  "py_eq JNull y = (y = JNull)"
| "py_eq (JBool b) y =
     (case y of
        JBool b' \<Rightarrow> b = b'
      | JInt j \<Rightarrow> (if b then 1 else 0) = j
      | JFloat r \<Rightarrow> (if b then 1 else 0) = r
      | _ \<Rightarrow> False)"
| "py_eq (JInt i) y =
     (case y of
        JBool b' \<Rightarrow> i = (if b' then 1 else 0)
      | JInt j \<Rightarrow> i = j
      | JFloat r \<Rightarrow> of_int i = r
      | _ \<Rightarrow> False)"
| "py_eq (JFloat q) y =
     (case y of
        JBool b' \<Rightarrow> q = (if b' then 1 else 0)
      | JInt j \<Rightarrow> q = of_int j
      | JFloat r \<Rightarrow> q = r
      | _ \<Rightarrow> False)"
| "py_eq (JStr s) y = (y = JStr s)"
| "py_eq (JList xs) y =
     (case y of JList ys \<Rightarrow> list_all2 (\<lambda>f v. f v) (map py_eq xs) ys | _ \<Rightarrow> False)"
| "py_eq (JDict m) y =
     (case y of JDict n \<Rightarrow> fmrel (\<lambda>f v. f v) (fmmap py_eq m) n | _ \<Rightarrow> False)"

datatype py_error =
    ValueError
  | AssertionError
  | KeyError
  | TypeError
  | AttributeError
  | IOError
  | RequestException

text \<open>
  How a piece of code ends: it falls through, it raises, or it calls \<open>sys.exit\<close>,
  which ends the process with the given status.
\<close>

datatype outcome = Normal | Raised py_error | SysExit int

text \<open>\<open>d[k]\<close> with a string key: only a dictionary holding the key answers.\<close>

fun py_getitem :: "json \<Rightarrow> string \<Rightarrow> py_error + json" where
  "py_getitem (JDict m) k = (case fmlookup m k of None \<Rightarrow> Inl KeyError | Some v \<Rightarrow> Inr v)"
| "py_getitem _ k = Inl TypeError"

text \<open>\<open>config['general'][k]\<close>.\<close>

definition config_general :: "json \<Rightarrow> string \<Rightarrow> py_error + json" where
  "config_general c k =
     (case py_getitem c ''general'' of Inl e \<Rightarrow> Inl e | Inr g \<Rightarrow> py_getitem g k)"

text \<open>Truth value of a Python object in an \<open>if\<close>.\<close>

fun py_truthy :: "json \<Rightarrow> bool" where
  "py_truthy JNull = False"
| "py_truthy (JBool b) = b"
| "py_truthy (JInt i) = (i \<noteq> 0)"
| "py_truthy (JFloat q) = (q \<noteq> 0)"
| "py_truthy (JStr s) = (s \<noteq> [])"
| "py_truthy (JList xs) = (xs \<noteq> [])"
| "py_truthy (JDict m) = (m \<noteq> fmempty)"

text \<open>
  \<open>s.split(sep, maxsplit)\<close> for a one-character separator: at most \<open>maxsplit\<close>
  cuts, from the left, the rest kept verbatim.
\<close>

fun py_split :: "char \<Rightarrow> nat \<Rightarrow> string \<Rightarrow> string list" where
  "py_split sep 0 s = [s]"
| "py_split sep (Suc n) s =
     (if sep \<in> set s
      then takeWhile (\<lambda>c. c \<noteq> sep) s # py_split sep n (tl (dropWhile (\<lambda>c. c \<noteq> sep) s))
      else [s])"

text \<open>\<open>sub in s\<close> on strings.\<close>

fun py_in :: "string \<Rightarrow> string \<Rightarrow> bool" where
  "py_in sub [] = (sub = [])"
| "py_in sub (c # cs) = (prefix sub (c # cs) \<or> py_in sub cs)"

abbreviation SP :: char where
  "SP \<equiv> CHR '' ''"

section \<open>Message names and socket names\<close>

datatype Messages = CONFIG | DRONE_DELETE | PING | IP | DRONE_WANT_CONFIG

text \<open>
  Modelled from the spec: \<open>beeswarm.shared.message_enum.Messages\<close> is not among the
  source files; the values are the command and topic words of the wire protocol
  (\<open>CONFIG\<close>, \<open>DELETE\<close>, \<open>PING\<close>, \<open>IP\<close>, \<open>WANT_CONFIG\<close>).
\<close>

fun Messages_value :: "Messages \<Rightarrow> string" where
  "Messages_value CONFIG = ''CONFIG''"
| "Messages_value DRONE_DELETE = ''DELETE''"
| "Messages_value PING = ''PING''"
| "Messages_value IP = ''IP''"
| "Messages_value DRONE_WANT_CONFIG = ''WANT_CONFIG''"

datatype SocketNames = SERVER_RELAY | SERVER_COMMANDS

section \<open>The agent's state\<close>

datatype mode = Honeypot | Client

datatype greenlet = Alive | Killed

datatype event =
    EvPush SocketNames string
  | EvOpenW
  | EvWrite string
  | EvDroneStop
  | EvGreenletKill
  | EvDroneStart mode json
  | EvConfigReceivedSet
  | EvWireSend string
  | EvExit int

text \<open>
  The attributes of \<open>Drone\<close> that the message loops read and write, the sockets as
  queues, the configuration file, and the effects in program order (\<open>trace\<close>).
  \<open>self_id\<close> is \<open>str(self.id)\<close>; \<open>drone\<close> is the workload object with the class
  and the configuration it was constructed with; \<open>config_file\<close> is the content of
  \<open>beeswarmcfg.json\<close> (\<open>None\<close>: no such file); \<open>fs_writable\<close> says whether opening
  it for writing succeeds; \<open>server_inbox\<close> is what the server publishes on the command
  channel, in order, before the subscription of line 158 filters it.
\<close>

record drone_state =
  self_id :: string
  config :: json
  local_pull_socket :: "string option"
  drone :: "(mode \<times> json) option"
  drone_greenlet :: "greenlet option"
  config_received :: bool
  config_file :: "string option"
  fs_writable :: bool
  server_inbox :: "string list"
  local_inbox :: "string list"
  relay_queue :: "string list"
  commands_queue :: "string list"
  wire :: "string list"
  trace :: "event list"

section \<open>Outbound relay\<close>

text \<open>The body of \<open>outgoing_server_comms\<close> that injects the identity (lines 245-252).\<close>

definition inject_id :: "string \<Rightarrow> string \<Rightarrow> py_error + string" where
  "inject_id sid message =
     (case py_split SP 1 message of
        [topic] \<Rightarrow> Inr (topic @ '' '' @ sid)
      | [topic, data] \<Rightarrow> Inr (topic @ '' '' @ sid @ '' '' @ data)
      | _ \<Rightarrow> Inl ValueError)"

text \<open>
  One turn of the loop of \<open>outgoing_server_comms\<close>: when the relay socket has a message,
  receive it, inject the identity and send it to the server.
\<close>

definition outgoing_iteration :: "drone_state \<Rightarrow> outcome \<times> drone_state" where
  "outgoing_iteration s =
     (case relay_queue s of
        [] \<Rightarrow> (Normal, s)
      | message # rest \<Rightarrow>
          (case inject_id (self_id s) message of
             Inl e \<Rightarrow> (Raised e, s\<lparr>relay_queue := rest\<rparr>)
           | Inr new_message \<Rightarrow>
               (Normal, s\<lparr>relay_queue := rest,
                          wire := wire s @ [new_message],
                          trace := trace s @ [EvWireSend new_message]\<rparr>)))"

text \<open>The loop, observed for a number of turns.\<close>

fun outgoing_server_comms :: "nat \<Rightarrow> drone_state \<Rightarrow> outcome \<times> drone_state" where
  "outgoing_server_comms 0 s = (Normal, s)"
| "outgoing_server_comms (Suc n) s =
     (case outgoing_iteration s of
        (Normal, s') \<Rightarrow> outgoing_server_comms n s'
      | r \<Rightarrow> r)"

section \<open>Internal sockets and the workload\<close>

text \<open>
  Modelled from the spec: \<open>beeswarm.shared.helpers.send_zmq_push\<close> is not among the
  source files; it pushes one message onto the queue behind the named socket. The relay
  socket feeds \<open>outgoing_server_comms\<close>, the commands socket feeds in-process listeners.
\<close>

definition send_zmq_push :: "SocketNames \<Rightarrow> string \<Rightarrow> drone_state \<Rightarrow> drone_state" where
  "send_zmq_push a m s =
     (case a of
        SERVER_RELAY \<Rightarrow> s\<lparr>relay_queue := relay_queue s @ [m], trace := trace s @ [EvPush a m]\<rparr>
      | SERVER_COMMANDS \<Rightarrow>
          s\<lparr>commands_queue := commands_queue s @ [m], trace := trace s @ [EvPush a m]\<rparr>)"

text \<open>Running one piece of code after another: a raise or an exit ends the sequence.\<close>

definition and_then ::
  "outcome \<times> drone_state \<Rightarrow> (drone_state \<Rightarrow> outcome \<times> drone_state) \<Rightarrow> outcome \<times> drone_state" where
  "and_then r f = (case r of (Normal, s) \<Rightarrow> f s | _ \<Rightarrow> r)"

text \<open>The last two lines of \<open>stop\<close>: \<open>drone_greenlet.kill(timeout=5)\<close> when there is one.\<close>

definition kill_drone_greenlet :: "drone_state \<Rightarrow> drone_state" where
  "kill_drone_greenlet s =
     (case drone_greenlet s of
        None \<Rightarrow> s
      | Some g \<Rightarrow> s\<lparr>drone_greenlet := Some Killed, trace := trace s @ [EvGreenletKill]\<rparr>)"

text \<open>
  \<open>Drone.stop\<close> (lines 128-139). With a workload object but no greenlet,
  \<open>self.drone_greenlet.unlink\<close> is an attribute access on \<open>None\<close>.
\<close>

definition stop :: "drone_state \<Rightarrow> outcome \<times> drone_state" where
  "stop s =
     (case drone s of
        None \<Rightarrow> (Normal, kill_drone_greenlet s)
      | Some w \<Rightarrow>
          (case drone_greenlet s of
             None \<Rightarrow> (Raised AttributeError, s)
           | Some g \<Rightarrow>
               (Normal, kill_drone_greenlet
                  (s\<lparr>drone_greenlet := Some Killed, drone := None,
                     trace := trace s @ [EvDroneStop, EvGreenletKill]\<rparr>))))"

text \<open>\<open>Drone.on_exception\<close> (lines 141-144), linked to both message greenlets.\<close>

definition on_exception :: "drone_state \<Rightarrow> outcome \<times> drone_state" where
  "on_exception s =
     and_then (stop s) (\<lambda>s'. (SysExit 1, s'\<lparr>trace := trace s' @ [EvExit 1]\<rparr>))"

text \<open>\<open>Drone._handle_delete\<close> (lines 284-288).\<close>

definition handle_delete :: "drone_state \<Rightarrow> outcome \<times> drone_state" where
  "handle_delete s =
     (let s1 = (if drone s \<noteq> None then s\<lparr>trace := trace s @ [EvDroneStop]\<rparr> else s)
      in (SysExit 0, s1\<lparr>trace := trace s1 @ [EvExit 0]\<rparr>))"

text \<open>The class chosen by \<open>_start_drone\<close> from \<open>config['general']['mode']\<close> (lines 114-120).\<close>

definition select_mode :: "json \<Rightarrow> mode option" where
  "select_mode m =
     (if m = JStr [] \<or> m = JNull then None
      else if m = JStr ''honeypot'' then Some Honeypot
      else if m = JStr ''client'' then Some Client
      else None)"

text \<open>
  \<open>Drone._start_drone\<close> (lines 106-126). \<open>loads\<close> stands for
  \<open>json.load(..., object_hook=asciify)\<close>, \<open>None\<close> when it raises.
\<close>

definition start_drone :: "(string \<Rightarrow> json option) \<Rightarrow> drone_state \<Rightarrow> outcome \<times> drone_state" where
  "start_drone loads s =
     (case config_file s of
        None \<Rightarrow> (Raised IOError, s)
      | Some text \<Rightarrow>
          (case loads text of
             None \<Rightarrow> (Raised ValueError, s)
           | Some c \<Rightarrow>
               (let s1 = s\<lparr>config := c\<rparr> in
                case config_general c ''mode'' of
                  Inl e \<Rightarrow> (Raised e, s1)
                | Inr m \<Rightarrow>
                    (case select_mode m of
                       None \<Rightarrow> (Normal, s1)
                     | Some cls \<Rightarrow>
                         (Normal, s1\<lparr>drone := Some (cls, c), drone_greenlet := Some Alive,
                                     trace := trace s1 @ [EvDroneStart cls c]\<rparr>)))))"

section \<open>The configuration file\<close>

text \<open>\<open>open(self.config_file, 'w')\<close>: the file is created or truncated.\<close>

definition open_w :: "drone_state \<Rightarrow> outcome \<times> drone_state" where
  "open_w s =
     (if fs_writable s
      then (Normal, s\<lparr>config_file := Some [], trace := trace s @ [EvOpenW]\<rparr>)
      else (Raised IOError, s))"

text \<open>\<open>local_config.write(d)\<close> and the end of the \<open>with\<close> block.\<close>

definition write_close :: "string \<Rightarrow> drone_state \<Rightarrow> outcome \<times> drone_state" where
  "write_close d s =
     (Normal, s\<lparr>config_file := Some (case config_file s of None \<Rightarrow> d | Some old \<Rightarrow> old @ d),
                trace := trace s @ [EvWrite d]\<rparr>)"

text \<open>What one effect does to the file, and the contents the file passes through.\<close>

fun file_after :: "event \<Rightarrow> string option \<Rightarrow> string option" where
  "file_after EvOpenW f = Some []"
| "file_after (EvWrite d) f = Some (case f of None \<Rightarrow> d | Some old \<Rightarrow> old @ d)"
| "file_after _ f = f"

fun file_observations :: "string option \<Rightarrow> event list \<Rightarrow> string option list" where
  "file_observations f [] = [f]"
| "file_observations f (e # es) = f # file_observations (file_after e f) es"

fun is_file_event :: "event \<Rightarrow> bool" where
  "is_file_event EvOpenW = True"
| "is_file_event (EvWrite d) = True"
| "is_file_event _ = False"

section \<open>Inbound command processor\<close>

text \<open>
  The handling of one message received from the server (lines 186-208). \<open>loads\<close> is
  \<open>json.loads(..., object_hook=asciify)\<close> and \<open>dumps\<close> is \<open>json.dumps(..., indent=4)\<close>.
  \<open>self.internal_server_relay.send\<close> (line 208) puts its message on the queue of the
  commands socket, which that socket is bound to; a listener is taken to be connected
  there (without one the send would wait).
\<close>

definition handle_server_message ::
  "(string \<Rightarrow> json option) \<Rightarrow> (json \<Rightarrow> string) \<Rightarrow> string \<Rightarrow> drone_state \<Rightarrow> outcome \<times> drone_state" where
  "handle_server_message loads dumps message s =
     (case py_split SP 2 message of
        [drone_id, command, data] \<Rightarrow>
          (if drone_id \<noteq> self_id s then (Raised AssertionError, s)
           else if command = Messages_value CONFIG then
             (let s1 = send_zmq_push SERVER_RELAY (Messages_value PING) s in
              case loads data of
                None \<Rightarrow> (Raised ValueError, s1)
              | Some cfg \<Rightarrow>
                  (if \<not> py_eq (config s1) cfg \<or> \<not> config_received s1
                   then and_then (open_w (s1\<lparr>config := cfg\<rparr>)) (\<lambda>s3.
                        and_then (write_close (dumps cfg) s3) (\<lambda>s4.
                        and_then (stop s4) (\<lambda>s5.
                        and_then (start_drone loads s5) (\<lambda>s6.
                          (Normal, s6\<lparr>config_received := True,
                                      trace := trace s6 @ [EvConfigReceivedSet]\<rparr>)))))
                   else (Normal, s1)))
           else if command = Messages_value DRONE_DELETE then handle_delete s
           else (Normal, send_zmq_push SERVER_COMMANDS (command @ '' '' @ data) s))
      | _ \<Rightarrow> (Raised ValueError, s))"

datatype socket = server_receiving_socket | local_receiving_socket

text \<open>
  \<open>setsockopt(zmq.SUBSCRIBE, str(self.id))\<close> (line 158): the SUB socket delivers the
  messages that begin with the agent's identity and drops the others.
\<close>

definition subscribed :: "string \<Rightarrow> string \<Rightarrow> bool" where
  "subscribed sid message = prefix sid message"

text \<open>
  Messages waiting on a socket: on the server socket the published messages from the first
  one that passes the subscription on. The local socket is bound only when a path was
  given.
\<close>

definition pending :: "socket \<Rightarrow> drone_state \<Rightarrow> string list" where
  "pending k s =
     (case k of
        server_receiving_socket \<Rightarrow>
          dropWhile (\<lambda>message. \<not> subscribed (self_id s) message) (server_inbox s)
      | local_receiving_socket \<Rightarrow> (if local_pull_socket s = None then [] else local_inbox s))"

text \<open>\<open>poller.poll\<close>: the registered sockets that have input.\<close>

definition poll :: "socket list \<Rightarrow> drone_state \<Rightarrow> socket list" where
  "poll registered s = filter (\<lambda>k. pending k s \<noteq> []) registered"

text \<open>
  One turn of the loop of \<open>incoming_server_comms\<close> (lines 179-211). The poller is the
  one built at lines 176-177: \<open>server_receiving_socket\<close> is its only registered socket.
\<close>

definition incoming_iteration ::
  "(string \<Rightarrow> json option) \<Rightarrow> (json \<Rightarrow> string) \<Rightarrow> drone_state \<Rightarrow> outcome \<times> drone_state" where
  "incoming_iteration loads dumps s =
     (let socks = poll [server_receiving_socket] s in
      if server_receiving_socket \<in> set socks then
        (case pending server_receiving_socket s of
           [] \<Rightarrow> (Normal, s)
         | message # rest \<Rightarrow> handle_server_message loads dumps message (s\<lparr>server_inbox := rest\<rparr>))
      else if local_receiving_socket \<in> set socks then
        (case local_inbox s of
           [] \<Rightarrow> (Normal, s)
         | data # rest \<Rightarrow>
             (Normal, s\<lparr>local_inbox := rest,
                        relay_queue := relay_queue s @ [self_id s @ '' '' @ data],
                        trace := trace s @ [EvPush SERVER_RELAY (self_id s @ '' '' @ data)]\<rparr>))
      else (Normal, s))"

text \<open>The loop, observed for a number of turns.\<close>

fun incoming_server_comms ::
  "(string \<Rightarrow> json option) \<Rightarrow> (json \<Rightarrow> string) \<Rightarrow> nat \<Rightarrow> drone_state \<Rightarrow> outcome \<times> drone_state" where
  "incoming_server_comms loads dumps 0 s = (Normal, s)"
| "incoming_server_comms loads dumps (Suc n) s =
     and_then (incoming_iteration loads dumps s) (incoming_server_comms loads dumps n)"

text \<open>
  The greenlet started at lines 99-101: an exception that leaves the loop reaches
  \<open>on_exception\<close> through \<open>link_exception\<close>.
\<close>

definition incoming_msg_greenlet ::
  "(string \<Rightarrow> json option) \<Rightarrow> (json \<Rightarrow> string) \<Rightarrow> nat \<Rightarrow> drone_state \<Rightarrow> outcome \<times> drone_state" where
  "incoming_msg_greenlet loads dumps n s =
     (case incoming_server_comms loads dumps n s of
        (Raised e, s') \<Rightarrow> on_exception s'
      | r \<Rightarrow> r)"

section \<open>Liveness monitor\<close>

datatype zmq_event = EVENT_CONNECTED | EVENT_DISCONNECTED | EVENT_OTHER

text \<open>The names given to the two monitors (lines 227 and 173).\<close>

definition outgoing_log_name :: "string \<Rightarrow> string" where
  "outgoing_log_name url = ''outgoing socket ('' @ url @ '').''"

definition incoming_log_name :: "string \<Rightarrow> string" where
  "incoming_log_name url = ''incomming socket ('' @ url @ '').''"

text \<open>
  The handling of one monitor event in \<open>monitor_worker\<close> (lines 266-281). \<open>own_ip\<close>
  is what \<open>get_most_likely_ip()\<close> returns.
\<close>

definition monitor_worker_event ::
  "string \<Rightarrow> string \<Rightarrow> zmq_event \<Rightarrow> drone_state \<Rightarrow> outcome \<times> drone_state" where
  "monitor_worker_event log_name own_ip ev s =
     (case ev of
        EVENT_CONNECTED \<Rightarrow>
          (let s1 = send_zmq_push SERVER_RELAY (Messages_value DRONE_WANT_CONFIG) s in
           if py_in ''outgoing'' log_name then
             (let s2 = send_zmq_push SERVER_RELAY (Messages_value PING) s1 in
              (Normal, send_zmq_push SERVER_RELAY (Messages_value IP @ '' '' @ own_ip) s2))
           else if py_truthy (JStr ''incomming'') then (Normal, s1)
           else (Raised AssertionError, s1))
      | EVENT_DISCONNECTED \<Rightarrow> (Normal, s)
      | EVENT_OTHER \<Rightarrow> (Normal, s))"

section \<open>Construction\<close>

datatype http_result = Response string | RaisesTimeout | RaisesConnectionError | RaisesOther

text \<open>
  The attributes set by \<open>Drone.__init__\<close>. An attribute that was never assigned is
  \<open>None\<close> in \<open>a_ip\<close>; \<open>a_drone = None\<close> is Python's \<open>None\<close>.
\<close>

record drone_attrs =
  a_config :: json
  a_id :: json
  a_local_pull_socket :: "string option"
  a_drone :: "(mode \<times> json) option"
  a_drone_greenlet :: "greenlet option"
  a_ip :: "string option"
  a_config_received :: bool

text \<open>
  \<open>Drone.__init__\<close> (lines 52-83); \<open>http\<close> is what \<open>requests.get\<close> does when it is
  called.
\<close>

definition Drone_init :: "json \<Rightarrow> string option \<Rightarrow> http_result \<Rightarrow> py_error + drone_attrs" where
  "Drone_init cfg lps http =
     (case config_general cfg ''id'' of
        Inl e \<Rightarrow> Inl e
      | Inr i \<Rightarrow>
          (let a = \<lparr>a_config = cfg, a_id = i, a_local_pull_socket = lps, a_drone = None,
                    a_drone_greenlet = None, a_ip = None, a_config_received = False\<rparr> in
           case config_general cfg ''fetch_ip'' of
             Inl e \<Rightarrow> Inl e
           | Inr f \<Rightarrow>
               (if py_truthy f then
                  (case http of
                     Response text \<Rightarrow> Inr (a\<lparr>a_ip := Some text\<rparr>)
                   | RaisesTimeout \<Rightarrow> Inr a
                   | RaisesConnectionError \<Rightarrow> Inr a
                   | RaisesOther \<Rightarrow> Inl RequestException)
                else Inr (a\<lparr>a_ip := Some []\<rparr>))))"

section \<open>Sample inputs\<close>

text \<open>
  Two configuration documents, a coder that knows their texts, and an agent that runs
  a honeypot; the theorems below are applied to them.
\<close>

definition sample_honeypot :: json where
  "sample_honeypot =
     JDict (fmupd ''general''
              (JDict (fmupd ''mode'' (JStr ''honeypot'')
                     (fmupd ''id'' (JStr ''A1'')
                     (fmupd ''fetch_ip'' (JBool True) fmempty))))
              fmempty)"

definition sample_client :: json where
  "sample_client =
     JDict (fmupd ''general''
              (JDict (fmupd ''mode'' (JStr ''client'')
                     (fmupd ''id'' (JStr ''A1'')
                     (fmupd ''fetch_ip'' (JBool False) fmempty))))
              fmempty)"

definition sample_loads :: "string \<Rightarrow> json option" where
  "sample_loads t =
     (if t = ''{honeypot}'' then Some sample_honeypot
      else if t = ''{client}'' then Some sample_client
      else None)"

definition sample_dumps :: "json \<Rightarrow> string" where
  "sample_dumps c = (if c = sample_client then ''{client}'' else ''{honeypot}'')"

definition sample_state :: drone_state where
  "sample_state =
     \<lparr>self_id = ''A1'', config = sample_honeypot, local_pull_socket = Some ''drone.sock'',
      drone = Some (Honeypot, sample_honeypot), drone_greenlet = Some Alive,
      config_received = True, config_file = Some ''{honeypot}'', fs_writable = True,
      server_inbox = [], local_inbox = [], relay_queue = [], commands_queue = [],
      wire = [], trace = []\<rparr>"

section \<open>Splitting\<close>

lemma sample_differ: "sample_honeypot \<noteq> sample_client"
proof
  assume "sample_honeypot = sample_client"
  then have "config_general sample_honeypot ''mode'' = config_general sample_client ''mode''"
    by simp
  then show False
    by (simp add: config_general_def sample_honeypot_def sample_client_def)
qed

lemma py_split_none: "sep \<notin> set s \<Longrightarrow> py_split sep n s = [s]"
  by (cases n) simp_all

lemma takeWhile_until_sep: "sep \<notin> set a \<Longrightarrow> takeWhile (\<lambda>c. c \<noteq> sep) (a @ sep # r) = a"
  by (induction a) auto

lemma dropWhile_until_sep:
  "sep \<notin> set a \<Longrightarrow> dropWhile (\<lambda>c. c \<noteq> sep) (a @ sep # r) = sep # r"
  by (induction a) auto

lemma py_split_first:
  "sep \<notin> set a \<Longrightarrow> py_split sep (Suc n) (a @ sep # r) = a # py_split sep n r"
  by (simp add: takeWhile_until_sep dropWhile_until_sep)

lemma py_split_1: "sep \<notin> set a \<Longrightarrow> py_split sep 1 (a @ sep # r) = [a, r]"
  using py_split_first [of sep a 0 r] by simp

lemma py_split_2:
  "sep \<notin> set a \<Longrightarrow> sep \<notin> set b \<Longrightarrow> py_split sep 2 (a @ sep # b @ sep # c) = [a, b, c]"
proof -
  assume a: "sep \<notin> set a" and b: "sep \<notin> set b"
  have "py_split sep (Suc (Suc 0)) (a @ sep # b @ sep # c) = a # py_split sep (Suc 0) (b @ sep # c)"
    using a by (rule py_split_first)
  also have "py_split sep (Suc 0) (b @ sep # c) = b # py_split sep 0 c"
    using b by (rule py_split_first)
  finally show ?thesis by (simp add: numeral_2_eq_2)
qed

lemma inject_id_topic: "SP \<notin> set topic \<Longrightarrow> inject_id sid topic = Inr (topic @ '' '' @ sid)"
  by (simp add: inject_id_def py_split_none)

lemma inject_id_payload:
  "SP \<notin> set topic \<Longrightarrow>
   inject_id sid (topic @ '' '' @ p) = Inr (topic @ '' '' @ sid @ '' '' @ p)"
  using py_split_1 [of SP topic p] by (simp add: inject_id_def)

text \<open>
  C4. A message taken from the relay queue that is a single token \<open>TOPIC\<close> goes to the
  server as \<open>TOPIC AGENT_ID\<close>; a message \<open>TOPIC P\<close> goes out as \<open>TOPIC AGENT_ID P\<close>,
  with the payload \<open>P\<close> unchanged whatever it contains.
\<close>

theorem outgoing_identity_stamping:
  assumes "SP \<notin> set topic"
  shows "(relay_queue s = topic # rest \<longrightarrow>
           outgoing_iteration s =
             (Normal, s\<lparr>relay_queue := rest,
                        wire := wire s @ [topic @ '' '' @ self_id s],
                        trace := trace s @ [EvWireSend (topic @ '' '' @ self_id s)]\<rparr>)) \<and>
         (relay_queue s = (topic @ '' '' @ p) # rest \<longrightarrow>
           outgoing_iteration s =
             (Normal, s\<lparr>relay_queue := rest,
                        wire := wire s @ [topic @ '' '' @ self_id s @ '' '' @ p],
                        trace := trace s @ [EvWireSend (topic @ '' '' @ self_id s @ '' '' @ p)]\<rparr>))"
  using assms inject_id_topic [of topic "self_id s"] inject_id_payload [of topic "self_id s" p]
  by (simp add: outgoing_iteration_def)

theorem outgoing_identity_stamping_witness:
  "SP \<notin> set ''PING'' \<and>
   outgoing_iteration (sample_state\<lparr>relay_queue := [''PING'']\<rparr>) =
     (Normal, sample_state\<lparr>relay_queue := [], wire := [''PING A1''],
                           trace := [EvWireSend ''PING A1'']\<rparr>) \<and>
   outgoing_iteration (sample_state\<lparr>relay_queue := [''IP 10.0.0.1 eth0'']\<rparr>) =
     (Normal, sample_state\<lparr>relay_queue := [], wire := [''IP A1 10.0.0.1 eth0''],
                           trace := [EvWireSend ''IP A1 10.0.0.1 eth0'']\<rparr>)"
  using outgoing_identity_stamping [of "''PING''" "sample_state\<lparr>relay_queue := [''PING'']\<rparr>" "[]" "''x''"]
        outgoing_identity_stamping [of "''IP''" "sample_state\<lparr>relay_queue := [''IP 10.0.0.1 eth0'']\<rparr>" "[]" "''10.0.0.1 eth0''"]
  by (simp add: sample_state_def)

section \<open>Sample state\<close>

lemma sample_state_fields:
  "self_id sample_state = ''A1''"
  "config sample_state = sample_honeypot"
  "local_pull_socket sample_state = Some ''drone.sock''"
  "drone sample_state = Some (Honeypot, sample_honeypot)"
  "drone_greenlet sample_state = Some Alive"
  "config_received sample_state"
  "config_file sample_state = Some ''{honeypot}''"
  "fs_writable sample_state"
  "server_inbox sample_state = []"
  "local_inbox sample_state = []"
  "relay_queue sample_state = []"
  "commands_queue sample_state = []"
  "wire sample_state = []"
  "trace sample_state = []"
  by (simp_all add: sample_state_def)

section \<open>Liveness monitor: announcements on connect\<close>

lemma py_in_prefix: "prefix sub s \<Longrightarrow> py_in sub s"
  by (cases s) simp_all

lemma outgoing_log_name_outgoing: "py_in ''outgoing'' (outgoing_log_name url)"
  by (rule py_in_prefix) (simp add: outgoing_log_name_def)

lemma inject_id_total: "\<exists>m. inject_id sid message = Inr m"
  by (simp add: inject_id_def split: list.splits)

text \<open>
  C10. The test \<open>elif 'incomming'\<close> is on a non-empty string literal and so always
  succeeds: no event and no log name makes \<open>monitor_worker\<close> reach \<open>assert False\<close>,
  and a connect on a transport whose log name does not contain \<open>outgoing\<close> pushes the
  \<open>WANT_CONFIG\<close> announcement alone, with no \<open>PING\<close> and no \<open>IP\<close>.
\<close>

theorem monitor_connect_not_outgoing:
  "py_truthy (JStr ''incomming'') \<and>
   fst (monitor_worker_event log_name own_ip ev s) = Normal \<and>
   (\<not> py_in ''outgoing'' log_name \<longrightarrow>
      monitor_worker_event log_name own_ip EVENT_CONNECTED s =
        (Normal, s\<lparr>relay_queue := relay_queue s @ [''WANT_CONFIG''],
                   trace := trace s @ [EvPush SERVER_RELAY ''WANT_CONFIG'']\<rparr>))"
  by (cases ev) (simp_all add: monitor_worker_event_def send_zmq_push_def Let_def)

theorem monitor_connect_not_outgoing_witness:
  "\<not> py_in ''outgoing'' (incoming_log_name ''tcp://10.0.0.1:5713'') \<and>
   monitor_worker_event (incoming_log_name ''tcp://10.0.0.1:5713'') ''192.168.1.5''
       EVENT_CONNECTED sample_state =
     (Normal, sample_state\<lparr>relay_queue := [''WANT_CONFIG''],
                           trace := [EvPush SERVER_RELAY ''WANT_CONFIG'']\<rparr>)"
proof -
  have h: "\<not> py_in ''outgoing'' (incoming_log_name ''tcp://10.0.0.1:5713'')"
    by (simp add: incoming_log_name_def)
  show ?thesis
    using h monitor_connect_not_outgoing
            [of "incoming_log_name ''tcp://10.0.0.1:5713''" "''192.168.1.5''" EVENT_CONNECTED sample_state]
    by (simp add: sample_state_def)
qed

text \<open>
  C8. When the outbound transport connects, the monitor named \<open>outgoing socket (url).\<close>
  pushes exactly three announcements onto the relay queue, \<open>WANT_CONFIG\<close>, then
  \<open>PING\<close>, then \<open>IP\<close> with the local address; the relay sends them to the server as
  \<open>WANT_CONFIG AGENT_ID\<close>, \<open>PING AGENT_ID\<close>, \<open>IP AGENT_ID addr\<close>, in that order.
\<close>

theorem outgoing_connect_announcements:
  "monitor_worker_event (outgoing_log_name url) own_ip EVENT_CONNECTED s =
     (Normal, s\<lparr>relay_queue := relay_queue s @ [''WANT_CONFIG'', ''PING'', ''IP '' @ own_ip],
                trace := trace s @ [EvPush SERVER_RELAY ''WANT_CONFIG'',
                                    EvPush SERVER_RELAY ''PING'',
                                    EvPush SERVER_RELAY (''IP '' @ own_ip)]\<rparr>) \<and>
   (relay_queue s = [] \<longrightarrow>
      outgoing_server_comms 3 (snd (monitor_worker_event (outgoing_log_name url) own_ip EVENT_CONNECTED s)) =
        (Normal, s\<lparr>relay_queue := [],
                   wire := wire s @ [''WANT_CONFIG '' @ self_id s, ''PING '' @ self_id s,
                                     ''IP '' @ self_id s @ '' '' @ own_ip],
                   trace := trace s @ [EvPush SERVER_RELAY ''WANT_CONFIG'',
                                       EvPush SERVER_RELAY ''PING'',
                                       EvPush SERVER_RELAY (''IP '' @ own_ip),
                                       EvWireSend (''WANT_CONFIG '' @ self_id s),
                                       EvWireSend (''PING '' @ self_id s),
                                       EvWireSend (''IP '' @ self_id s @ '' '' @ own_ip)]\<rparr>))"
proof -
  have a: "inject_id (self_id s) ''WANT_CONFIG'' = Inr (''WANT_CONFIG '' @ self_id s)"
    using inject_id_topic [of "''WANT_CONFIG''" "self_id s"] by simp
  have b: "inject_id (self_id s) ''PING'' = Inr (''PING '' @ self_id s)"
    using inject_id_topic [of "''PING''" "self_id s"] by simp
  have c: "inject_id (self_id s) (''IP '' @ own_ip) = Inr (''IP '' @ self_id s @ '' '' @ own_ip)"
    using inject_id_payload [of "''IP''" "self_id s" own_ip] by simp
  show ?thesis
    using outgoing_log_name_outgoing [of url] a b c
    by (simp add: monitor_worker_event_def send_zmq_push_def Let_def numeral_3_eq_3
                  outgoing_iteration_def)
qed

theorem outgoing_connect_announcements_witness:
  "relay_queue sample_state = [] \<and>
   outgoing_server_comms 3
      (snd (monitor_worker_event (outgoing_log_name ''tcp://10.0.0.1:5712'') ''192.168.1.5''
              EVENT_CONNECTED sample_state)) =
     (Normal, sample_state\<lparr>relay_queue := [],
                wire := [''WANT_CONFIG A1'', ''PING A1'', ''IP A1 192.168.1.5''],
                trace := [EvPush SERVER_RELAY ''WANT_CONFIG'', EvPush SERVER_RELAY ''PING'',
                          EvPush SERVER_RELAY ''IP 192.168.1.5'',
                          EvWireSend ''WANT_CONFIG A1'', EvWireSend ''PING A1'',
                          EvWireSend ''IP A1 192.168.1.5'']\<rparr>)"
proof -
  have h: "relay_queue sample_state = []"
    by (simp add: sample_state_fields)
  show ?thesis
    using h outgoing_connect_announcements
              [of "''tcp://10.0.0.1:5712''" "''192.168.1.5''" sample_state,
               THEN conjunct2, rule_format, OF h]
    by (simp add: sample_state_fields)
qed

section \<open>The command loop: helper facts\<close>

lemma split_command:
  "SP \<notin> set sid \<Longrightarrow> SP \<notin> set cmd \<Longrightarrow>
   py_split SP 2 (sid @ '' '' @ cmd @ '' '' @ data) = [sid, cmd, data]"
  using py_split_2 [of SP sid cmd data] by simp

lemma incoming_iteration_server:
  "server_inbox s = m # rest \<Longrightarrow> prefix (self_id s) m \<Longrightarrow>
   incoming_iteration loads dumps s = handle_server_message loads dumps m (s\<lparr>server_inbox := rest\<rparr>)"
  by (simp add: incoming_iteration_def poll_def pending_def subscribed_def)

lemma incoming_iteration_addressed:
  "server_inbox s = (self_id s @ r) # rest \<Longrightarrow>
   incoming_iteration loads dumps s =
     handle_server_message loads dumps (self_id s @ r) (s\<lparr>server_inbox := rest\<rparr>)"
  by (rule incoming_iteration_server) simp_all

lemma incoming_iteration_filtered:
  "list_all (\<lambda>m. \<not> prefix (self_id s) m) (server_inbox s) \<Longrightarrow>
   incoming_iteration loads dumps s = (Normal, s)"
  by (simp add: incoming_iteration_def poll_def pending_def subscribed_def list_all_iff)

lemma incoming_iteration_idle:
  "server_inbox s = [] \<Longrightarrow> incoming_iteration loads dumps s = (Normal, s)"
  by (simp add: incoming_iteration_def poll_def pending_def)

lemma sample_general:
  "config_general sample_honeypot ''mode'' = Inr (JStr ''honeypot'')"
  "config_general sample_honeypot ''id'' = Inr (JStr ''A1'')"
  "config_general sample_honeypot ''fetch_ip'' = Inr (JBool True)"
  "config_general sample_client ''mode'' = Inr (JStr ''client'')"
  "config_general sample_client ''id'' = Inr (JStr ''A1'')"
  "config_general sample_client ''fetch_ip'' = Inr (JBool False)"
  by (simp_all add: config_general_def sample_honeypot_def sample_client_def)

section \<open>DELETE\<close>

text \<open>
  C7. A \<open>DELETE\<close> command addressed to the agent ends the process with status 0; when
  a workload is running, its \<open>stop\<close> is called first, so the workload is stopped before
  the process terminates; with no workload the process simply exits with status 0.
\<close>

theorem delete_stops_then_exits:
  assumes "SP \<notin> set (self_id s)"
    and "server_inbox s = (self_id s @ '' DELETE '' @ data) # rest"
  shows "incoming_msg_greenlet loads dumps (Suc n) s =
           (SysExit 0,
            s\<lparr>server_inbox := rest,
              trace := trace s @ (if drone s \<noteq> None then [EvDroneStop] else []) @ [EvExit 0]\<rparr>)"
proof -
  have sp: "py_split SP 2 (self_id s @ '' DELETE '' @ data) = [self_id s, ''DELETE'', data]"
    using split_command [of "self_id s" "''DELETE''" data] assms(1) by simp
  have "handle_server_message loads dumps (self_id s @ '' DELETE '' @ data) (s\<lparr>server_inbox := rest\<rparr>) =
          (SysExit 0,
            s\<lparr>server_inbox := rest,
              trace := trace s @ (if drone s \<noteq> None then [EvDroneStop] else []) @ [EvExit 0]\<rparr>)"
    using sp by (simp add: handle_server_message_def handle_delete_def Let_def)
  then show ?thesis
    using incoming_iteration_server [OF assms(2)]
    by (simp add: incoming_msg_greenlet_def and_then_def)
qed

theorem delete_stops_then_exits_witness:
  "SP \<notin> set (self_id sample_state) \<and>
   incoming_msg_greenlet sample_loads sample_dumps 1 (sample_state\<lparr>server_inbox := [''A1 DELETE now'']\<rparr>) =
     (SysExit 0, sample_state\<lparr>server_inbox := [], trace := [EvDroneStop, EvExit 0]\<rparr>) \<and>
   incoming_msg_greenlet sample_loads sample_dumps 1
       (sample_state\<lparr>drone := None, server_inbox := [''A1 DELETE now'']\<rparr>) =
     (SysExit 0, sample_state\<lparr>drone := None, server_inbox := [], trace := [EvExit 0]\<rparr>)"
proof -
  have a: "SP \<notin> set (self_id (sample_state\<lparr>server_inbox := [''A1 DELETE now'']\<rparr>))"
    by (simp add: sample_state_fields)
  have b: "server_inbox (sample_state\<lparr>server_inbox := [''A1 DELETE now'']\<rparr>) =
             (self_id (sample_state\<lparr>server_inbox := [''A1 DELETE now'']\<rparr>) @ '' DELETE '' @ ''now'') # []"
    by (simp add: sample_state_fields)
  have a': "SP \<notin> set (self_id (sample_state\<lparr>drone := None, server_inbox := [''A1 DELETE now'']\<rparr>))"
    by (simp add: sample_state_fields)
  have b': "server_inbox (sample_state\<lparr>drone := None, server_inbox := [''A1 DELETE now'']\<rparr>) =
             (self_id (sample_state\<lparr>drone := None, server_inbox := [''A1 DELETE now'']\<rparr>) @ '' DELETE '' @ ''now'') # []"
    by (simp add: sample_state_fields)
  show ?thesis
    using delete_stops_then_exits [OF a b, of sample_loads sample_dumps 0]
          delete_stops_then_exits [OF a' b', of sample_loads sample_dumps 0]
    by (simp add: sample_state_fields)
qed

section \<open>Construction: the external address\<close>

text \<open>
  C6. With \<open>fetch_ip\<close> enabled, a timeout or a connection error of the request is
  caught and construction goes on; the claim has the \<open>ip\<close> attribute set to the empty
  string then. The \<open>except\<close> branch assigns nothing: the attribute stays unset, where
  the \<open>else\<close> branch (fetching disabled) assigns the empty string.
\<close>

theorem init_fetch_failure_leaves_ip_unset:
  "map_sum id a_ip (Drone_init sample_honeypot lps RaisesTimeout) = Inr None \<and>
   map_sum id a_ip (Drone_init sample_honeypot lps RaisesConnectionError) = Inr None \<and>
   map_sum id a_ip (Drone_init sample_client lps http) = Inr (Some [])"
  by (simp add: Drone_init_def sample_general Let_def)

theorem init_fetch_failure_leaves_ip_unset_witness:
  "map_sum id a_ip (Drone_init sample_honeypot None RaisesTimeout) = Inr None \<and>
   map_sum id a_ip (Drone_init sample_honeypot None RaisesTimeout) \<noteq> Inr (Some [])"
  using init_fetch_failure_leaves_ip_unset [of None RaisesOther] by simp

section \<open>The local queue\<close>

text \<open>
  C5. A message on the local pull socket is to be forwarded to the relay queue as
  \<open>AGENT_ID PAYLOAD\<close>. The poller of \<open>incoming_server_comms\<close> has only the server
  socket registered, so \<open>poll\<close> never reports the local socket: with a local socket
  path configured and a message waiting there, any number of turns of the loop leaves the
  message where it is and forwards nothing.
\<close>

theorem local_queue_never_forwarded:
  "local_receiving_socket \<notin> set (poll [server_receiving_socket] s) \<and>
   incoming_server_comms loads dumps n (sample_state\<lparr>local_inbox := [''SESSION data'']\<rparr>) =
     (Normal, sample_state\<lparr>local_inbox := [''SESSION data'']\<rparr>)"
proof
  show "local_receiving_socket \<notin> set (poll [server_receiving_socket] s)"
    by (simp add: poll_def)
  show "incoming_server_comms loads dumps n (sample_state\<lparr>local_inbox := [''SESSION data'']\<rparr>) =
     (Normal, sample_state\<lparr>local_inbox := [''SESSION data'']\<rparr>)"
  proof (induction n)
    case 0
    show ?case by simp
  next
    case (Suc n)
    have "incoming_iteration loads dumps (sample_state\<lparr>local_inbox := [''SESSION data'']\<rparr>) =
            (Normal, sample_state\<lparr>local_inbox := [''SESSION data'']\<rparr>)"
      by (rule incoming_iteration_idle) (simp add: sample_state_fields)
    with Suc show ?case by (simp add: and_then_def)
  qed
qed

theorem local_queue_never_forwarded_witness:
  "local_pull_socket (sample_state\<lparr>local_inbox := [''SESSION data'']\<rparr>) = Some ''drone.sock'' \<and>
   relay_queue (snd (incoming_server_comms sample_loads sample_dumps 5
                       (sample_state\<lparr>local_inbox := [''SESSION data'']\<rparr>))) = [] \<and>
   local_inbox (snd (incoming_server_comms sample_loads sample_dumps 5
                       (sample_state\<lparr>local_inbox := [''SESSION data'']\<rparr>))) = [''SESSION data'']"
  using local_queue_never_forwarded [of sample_state sample_loads sample_dumps 5]
  by (simp add: sample_state_fields)

section \<open>Handling of one server message: helper facts\<close>

lemma py_eq_refl: "py_eq c c"
proof (induction c)
  case (JList xs)
  then show ?case by (simp add: list_all2_map1 list_all2_same)
next
  case (JDict m)
  have "rel_option (\<lambda>f v. f v) (map_option py_eq (fmlookup m x)) (fmlookup m x)" for x
  proof (cases "fmlookup m x")
    case None
    then show ?thesis by simp
  next
    case (Some v)
    then have "v \<in> fmran' m" by (rule fmran'I)
    with JDict Some show ?thesis by simp
  qed
  then show ?case by (simp add: fmrel_iff)
qed simp_all

lemma py_eq_dict_lookup:
  "py_eq (JDict m) (JDict n) \<Longrightarrow> fmlookup m k = Some v \<Longrightarrow>
   \<exists>w. fmlookup n k = Some w \<and> py_eq v w"
  by (auto simp add: fmrel_iff option.rel_sel dest!: spec [of _ k])

lemma py_eq_dict_cases: "py_eq (JDict m) y \<Longrightarrow> \<exists>n. y = JDict n"
  by (cases y) simp_all

lemma py_getitem_dict: "py_getitem a k = Inr v \<Longrightarrow> \<exists>m. a = JDict m \<and> fmlookup m k = Some v"
  by (cases a) (auto split: option.splits)

lemma py_eq_getitem:
  assumes "py_eq a b" and "py_getitem a k = Inr v"
  shows "\<exists>w. py_getitem b k = Inr w \<and> py_eq v w"
proof -
  from assms(2) obtain m where m: "a = JDict m" "fmlookup m k = Some v"
    using py_getitem_dict by blast
  with assms(1) obtain n where n: "b = JDict n"
    using py_eq_dict_cases by blast
  from assms(1) m n obtain w where "fmlookup n k = Some w" "py_eq v w"
    using py_eq_dict_lookup by blast
  with n show ?thesis by simp
qed

lemma py_eq_config_general:
  assumes "py_eq a b" and "config_general a k = Inr v"
  shows "\<exists>w. config_general b k = Inr w \<and> py_eq v w"
proof -
  from assms(2) obtain g where g: "py_getitem a ''general'' = Inr g" "py_getitem g k = Inr v"
    by (auto simp add: config_general_def split: sum.splits)
  from py_eq_getitem [OF assms(1) g(1)] obtain h where
    h: "py_getitem b ''general'' = Inr h" "py_eq g h" by blast
  from py_eq_getitem [OF h(2) g(2)] obtain w where "py_getitem h k = Inr w" "py_eq v w" by blast
  with h(1) show ?thesis by (simp add: config_general_def)
qed

lemma sample_py_differ: "\<not> py_eq sample_honeypot sample_client"
proof
  assume "py_eq sample_honeypot sample_client"
  from py_eq_config_general [OF this, of "''mode''" "JStr ''honeypot''"]
  show False by (simp add: sample_general)
qed

lemma stop_ok:
  "drone s \<noteq> None \<longrightarrow> drone_greenlet s \<noteq> None \<Longrightarrow>
   stop s =
     (Normal, s\<lparr>drone := None,
                drone_greenlet := map_option (\<lambda>g. Killed) (drone_greenlet s),
                trace := trace s @ (if drone s \<noteq> None then [EvDroneStop, EvGreenletKill] else []) @
                                   (if drone_greenlet s \<noteq> None then [EvGreenletKill] else [])\<rparr>)"
  by (cases "drone s"; cases "drone_greenlet s") (auto simp add: stop_def kill_drone_greenlet_def)

lemma case_three_other:
  "length xs \<noteq> 3 \<Longrightarrow> (case xs of [a, b, c] \<Rightarrow> F a b c | _ \<Rightarrow> R) = R"
  by (auto split: list.splits)

lemma case_three_fields:
  "length xs = 3 \<Longrightarrow>
   (case xs of [a, b, c] \<Rightarrow> F a b c | _ \<Rightarrow> R) = F (hd xs) (xs ! 1) (xs ! 2)"
  by (auto split: list.splits)

lemma handle_malformed:
  "length (py_split SP 2 m) \<noteq> 3 \<Longrightarrow>
   handle_server_message loads dumps m s = (Raised ValueError, s)"
  unfolding handle_server_message_def by (rule case_three_other)

lemma handle_wrong_id:
  "length (py_split SP 2 m) = 3 \<Longrightarrow> hd (py_split SP 2 m) \<noteq> self_id s \<Longrightarrow>
   handle_server_message loads dumps m s = (Raised AssertionError, s)"
  unfolding handle_server_message_def by (simp add: case_three_fields)

lemma handle_config_equal:
  assumes "SP \<notin> set (self_id s)"
    and "loads data = Some c"
    and "py_eq (config s) c"
    and "config_received s"
  shows "handle_server_message loads dumps (self_id s @ '' CONFIG '' @ data) s =
           (Normal, s\<lparr>relay_queue := relay_queue s @ [''PING''],
                      trace := trace s @ [EvPush SERVER_RELAY ''PING'']\<rparr>)"
proof -
  have sp: "py_split SP 2 (self_id s @ '' CONFIG '' @ data) = [self_id s, ''CONFIG'', data]"
    using split_command [of "self_id s" "''CONFIG''" data] assms(1) by simp
  show ?thesis
    using sp assms(2-4)
    by (simp add: handle_server_message_def send_zmq_push_def Let_def)
qed

lemma handle_config_same:
  assumes "SP \<notin> set (self_id s)"
    and "loads data = Some (config s)"
    and "config_received s"
  shows "handle_server_message loads dumps (self_id s @ '' CONFIG '' @ data) s =
           (Normal, s\<lparr>relay_queue := relay_queue s @ [''PING''],
                      trace := trace s @ [EvPush SERVER_RELAY ''PING'']\<rparr>)"
  using assms(1,2) py_eq_refl assms(3) by (rule handle_config_equal)

lemma handle_config_new:
  assumes sp: "SP \<notin> set (self_id s)"
    and ld: "loads data = Some c"
    and new: "\<not> py_eq (config s) c \<or> \<not> config_received s"
    and wr: "fs_writable s"
    and rt: "loads (dumps c) = Some c'"
    and md: "config_general c' ''mode'' = Inr m"
    and wf: "drone s \<noteq> None \<longrightarrow> drone_greenlet s \<noteq> None"
  shows "handle_server_message loads dumps (self_id s @ '' CONFIG '' @ data) s =
           (Normal,
            s\<lparr>relay_queue := relay_queue s @ [''PING''],
              config := c',
              config_file := Some (dumps c),
              drone := map_option (\<lambda>cls. (cls, c')) (select_mode m),
              drone_greenlet := (case select_mode m of
                                   None \<Rightarrow> map_option (\<lambda>g. Killed) (drone_greenlet s)
                                 | Some cls \<Rightarrow> Some Alive),
              config_received := True,
              trace := trace s @ [EvPush SERVER_RELAY ''PING'', EvOpenW, EvWrite (dumps c)] @
                       (if drone s \<noteq> None then [EvDroneStop, EvGreenletKill] else []) @
                       (if drone_greenlet s \<noteq> None then [EvGreenletKill] else []) @
                       (case select_mode m of None \<Rightarrow> [] | Some cls \<Rightarrow> [EvDroneStart cls c']) @
                       [EvConfigReceivedSet]\<rparr>)"
proof -
  have split3: "py_split SP 2 (self_id s @ '' CONFIG '' @ data) = [self_id s, ''CONFIG'', data]"
    using split_command [of "self_id s" "''CONFIG''" data] sp by simp
  define s2 where "s2 = (send_zmq_push SERVER_RELAY ''PING'' s)\<lparr>config := c\<rparr>"
  define s4 where "s4 = s2\<lparr>config_file := Some (dumps c), trace := trace s2 @ [EvOpenW, EvWrite (dumps c)]\<rparr>"
  have o: "and_then (open_w s2) (\<lambda>s3. write_close (dumps c) s3) = (Normal, s4)"
    using wr by (simp add: and_then_def open_w_def write_close_def s2_def s4_def send_zmq_push_def)
  have wf4: "drone s4 \<noteq> None \<longrightarrow> drone_greenlet s4 \<noteq> None"
    using wf by (simp add: s4_def s2_def send_zmq_push_def)
  show ?thesis
    using split3 ld new wr rt md stop_ok [OF wf4]
    by (cases "select_mode m")
       (simp_all add: handle_server_message_def Let_def and_then_def open_w_def write_close_def
                  start_drone_def send_zmq_push_def s4_def s2_def)
qed

lemma sample_codec:
  "sample_loads ''{honeypot}'' = Some sample_honeypot"
  "sample_loads ''{client}'' = Some sample_client"
  "sample_dumps sample_client = ''{client}''"
  "sample_dumps sample_honeypot = ''{honeypot}''"
  using sample_differ by (simp_all add: sample_loads_def sample_dumps_def)

lemma sample_select:
  "select_mode (JStr ''client'') = Some Client"
  "select_mode (JStr ''honeypot'') = Some Honeypot"
  by (simp_all add: select_mode_def)

lemma on_exception_ok:
  "drone s \<noteq> None \<longrightarrow> drone_greenlet s \<noteq> None \<Longrightarrow>
   on_exception s =
     (SysExit 1, s\<lparr>drone := None,
                   drone_greenlet := map_option (\<lambda>g. Killed) (drone_greenlet s),
                   trace := trace s @ (if drone s \<noteq> None then [EvDroneStop, EvGreenletKill] else []) @
                                      (if drone_greenlet s \<noteq> None then [EvGreenletKill] else []) @
                                      [EvExit 1]\<rparr>)"
  by (simp add: on_exception_def and_then_def stop_ok)

lemma sample_split_short: "py_split SP 2 ''A1 DELETE'' = [''A1'', ''DELETE'']"
  using py_split_first [of SP "''A1''" "Suc 0" "''DELETE''"] py_split_none [of SP "''DELETE''" "Suc 0"]
  by (simp add: numeral_2_eq_2)

lemma iteration_config_new:
  assumes "SP \<notin> set (self_id s)"
    and "loads data = Some c"
    and "\<not> py_eq (config s) c \<or> \<not> config_received s"
    and "fs_writable s"
    and "loads (dumps c) = Some c'"
    and "config_general c' ''mode'' = Inr m"
    and "drone s \<noteq> None \<longrightarrow> drone_greenlet s \<noteq> None"
    and "server_inbox s = (self_id s @ '' CONFIG '' @ data) # rest"
  shows "incoming_iteration loads dumps s =
           (Normal,
            s\<lparr>server_inbox := rest,
              relay_queue := relay_queue s @ [''PING''],
              config := c',
              config_file := Some (dumps c),
              drone := map_option (\<lambda>cls. (cls, c')) (select_mode m),
              drone_greenlet := (case select_mode m of
                                   None \<Rightarrow> map_option (\<lambda>g. Killed) (drone_greenlet s)
                                 | Some cls \<Rightarrow> Some Alive),
              config_received := True,
              trace := trace s @ [EvPush SERVER_RELAY ''PING'', EvOpenW, EvWrite (dumps c)] @
                       (if drone s \<noteq> None then [EvDroneStop, EvGreenletKill] else []) @
                       (if drone_greenlet s \<noteq> None then [EvGreenletKill] else []) @
                       (case select_mode m of None \<Rightarrow> [] | Some cls \<Rightarrow> [EvDroneStart cls c']) @
                       [EvConfigReceivedSet]\<rparr>)"
  using handle_config_new
          [where s = "s\<lparr>server_inbox := rest\<rparr>" and loads = loads and data = data and c = c
             and c' = c' and dumps = dumps and m = m]
        incoming_iteration_server [OF assms(8), of loads dumps] assms(1-7)
  by (simp cong: option.case_cong)

section \<open>A workload object always has its greenlet\<close>

text \<open>
  \<open>_start_drone\<close> sets \<open>drone\<close> and \<open>drone_greenlet\<close> together and \<open>stop\<close>
  clears only \<open>drone\<close>, so from the constructed agent (\<open>drone = None\<close>) on, every
  turn of the command loop keeps: a workload object comes with a greenlet.
\<close>

lemma stop_keeps_greenlet:
  "drone s \<noteq> None \<longrightarrow> drone_greenlet s \<noteq> None \<Longrightarrow> stop s = (r, s') \<Longrightarrow>
   drone s' \<noteq> None \<longrightarrow> drone_greenlet s' \<noteq> None"
  by (auto simp add: stop_def kill_drone_greenlet_def split: option.splits)

lemma start_drone_keeps_greenlet:
  "drone s \<noteq> None \<longrightarrow> drone_greenlet s \<noteq> None \<Longrightarrow> start_drone loads s = (r, s') \<Longrightarrow>
   drone s' \<noteq> None \<longrightarrow> drone_greenlet s' \<noteq> None"
  by (auto simp add: start_drone_def Let_def split: option.splits sum.splits)

lemma and_then_keeps:
  assumes "and_then x f = (r, s')"
    and "P (snd x)"
    and "\<And>s1 r2 s2. P s1 \<Longrightarrow> f s1 = (r2, s2) \<Longrightarrow> P s2"
  shows "P s'"
  using assms by (cases x; cases "fst x") (auto simp add: and_then_def)

lemma reconcile_keeps_greenlet:
  assumes wf: "drone s \<noteq> None \<longrightarrow> drone_greenlet s \<noteq> None"
    and run: "and_then (open_w s) (\<lambda>s3.
              and_then (write_close d s3) (\<lambda>s4.
              and_then (stop s4) (\<lambda>s5.
              and_then (start_drone loads s5) (\<lambda>s6.
                (Normal, s6\<lparr>config_received := True,
                            trace := trace s6 @ [EvConfigReceivedSet]\<rparr>))))) = (r, s')"
  shows "drone s' \<noteq> None \<longrightarrow> drone_greenlet s' \<noteq> None"
proof (rule and_then_keeps [OF run, where P = "\<lambda>s. drone s \<noteq> None \<longrightarrow> drone_greenlet s \<noteq> None"])
  show "drone (snd (open_w s)) \<noteq> None \<longrightarrow> drone_greenlet (snd (open_w s)) \<noteq> None"
    using wf by (simp add: open_w_def)
next
  fix s1 r2 s2
  assume p1: "drone s1 \<noteq> None \<longrightarrow> drone_greenlet s1 \<noteq> None"
    and r1: "and_then (write_close d s1) (\<lambda>s4.
              and_then (stop s4) (\<lambda>s5.
              and_then (start_drone loads s5) (\<lambda>s6.
                (Normal, s6\<lparr>config_received := True,
                            trace := trace s6 @ [EvConfigReceivedSet]\<rparr>)))) = (r2, s2)"
  show "drone s2 \<noteq> None \<longrightarrow> drone_greenlet s2 \<noteq> None"
  proof (rule and_then_keeps [OF r1, where P = "\<lambda>s. drone s \<noteq> None \<longrightarrow> drone_greenlet s \<noteq> None"])
    show "drone (snd (write_close d s1)) \<noteq> None \<longrightarrow> drone_greenlet (snd (write_close d s1)) \<noteq> None"
      using p1 by (simp add: write_close_def)
  next
    fix s3 r4 s4
    assume p3: "drone s3 \<noteq> None \<longrightarrow> drone_greenlet s3 \<noteq> None"
      and r3: "and_then (stop s3) (\<lambda>s5.
              and_then (start_drone loads s5) (\<lambda>s6.
                (Normal, s6\<lparr>config_received := True,
                            trace := trace s6 @ [EvConfigReceivedSet]\<rparr>))) = (r4, s4)"
    show "drone s4 \<noteq> None \<longrightarrow> drone_greenlet s4 \<noteq> None"
    proof (rule and_then_keeps [OF r3, where P = "\<lambda>s. drone s \<noteq> None \<longrightarrow> drone_greenlet s \<noteq> None"])
      show "drone (snd (stop s3)) \<noteq> None \<longrightarrow> drone_greenlet (snd (stop s3)) \<noteq> None"
        using stop_keeps_greenlet [OF p3, of "fst (stop s3)" "snd (stop s3)"] by simp
    next
      fix s5 r6 s6
      assume p5: "drone s5 \<noteq> None \<longrightarrow> drone_greenlet s5 \<noteq> None"
        and r5: "and_then (start_drone loads s5) (\<lambda>s6.
                (Normal, s6\<lparr>config_received := True,
                            trace := trace s6 @ [EvConfigReceivedSet]\<rparr>)) = (r6, s6)"
      show "drone s6 \<noteq> None \<longrightarrow> drone_greenlet s6 \<noteq> None"
      proof (rule and_then_keeps [OF r5, where P = "\<lambda>s. drone s \<noteq> None \<longrightarrow> drone_greenlet s \<noteq> None"])
        show "drone (snd (start_drone loads s5)) \<noteq> None \<longrightarrow>
              drone_greenlet (snd (start_drone loads s5)) \<noteq> None"
          using start_drone_keeps_greenlet
                  [OF p5, of loads "fst (start_drone loads s5)" "snd (start_drone loads s5)"]
          by simp
      next
        fix s7 r8 s8
        assume "drone s7 \<noteq> None \<longrightarrow> drone_greenlet s7 \<noteq> None"
          and "(Normal, s7\<lparr>config_received := True, trace := trace s7 @ [EvConfigReceivedSet]\<rparr>) = (r8, s8)"
        then show "drone s8 \<noteq> None \<longrightarrow> drone_greenlet s8 \<noteq> None" by auto
      qed
    qed
  qed
qed

lemma handle_keeps_greenlet:
  assumes wf: "drone s \<noteq> None \<longrightarrow> drone_greenlet s \<noteq> None"
    and run: "handle_server_message loads dumps m s = (r, s')"
  shows "drone s' \<noteq> None \<longrightarrow> drone_greenlet s' \<noteq> None"
proof (cases "length (py_split SP 2 m) = 3")
  case False
  from handle_malformed [OF False, of loads dumps s] assms show ?thesis by simp
next
  case True
  note three = case_three_fields [OF True]
  have wf1: "\<And>cfg. drone ((send_zmq_push SERVER_RELAY (Messages_value PING) s)\<lparr>config := cfg\<rparr>) \<noteq> None \<longrightarrow>
             drone_greenlet ((send_zmq_push SERVER_RELAY (Messages_value PING) s)\<lparr>config := cfg\<rparr>) \<noteq> None"
    using wf by (simp add: send_zmq_push_def)
  show ?thesis
    using run wf reconcile_keeps_greenlet [OF wf1]
    unfolding handle_server_message_def three
    by (auto simp add: Let_def handle_delete_def send_zmq_push_def split: if_splits option.splits)
qed

lemma iteration_keeps_greenlet:
  assumes "drone s \<noteq> None \<longrightarrow> drone_greenlet s \<noteq> None"
    and "incoming_iteration loads dumps s = (r, s')"
  shows "drone s' \<noteq> None \<longrightarrow> drone_greenlet s' \<noteq> None"
proof (cases "pending server_receiving_socket s")
  case Nil
  then have "incoming_iteration loads dumps s = (Normal, s)"
    by (simp add: incoming_iteration_def poll_def)
  with assms show ?thesis by simp
next
  case (Cons m rest)
  then have "incoming_iteration loads dumps s =
               handle_server_message loads dumps m (s\<lparr>server_inbox := rest\<rparr>)"
    by (simp add: incoming_iteration_def poll_def)
  moreover have "drone (s\<lparr>server_inbox := rest\<rparr>) \<noteq> None \<longrightarrow>
                 drone_greenlet (s\<lparr>server_inbox := rest\<rparr>) \<noteq> None"
    using assms(1) by simp
  ultimately show ?thesis
    using handle_keeps_greenlet assms(2) by metis
qed

section \<open>CONFIG with the configuration already applied\<close>

text \<open>
  C1. A \<open>CONFIG\<close> command whose document equals the configuration in memory, received
  after \<open>config_received\<close> is set, is claimed to be a no-op. The code writes nothing to
  the configuration file, neither stops nor starts a workload and leaves the configuration
  and the latch as they are; but the acknowledgement of line 195 is sent before the
  comparison, so one \<open>PING\<close> is pushed onto the relay queue, and that is the only
  effect.
\<close>

theorem config_identical_only_ping:
  assumes "SP \<notin> set (self_id s)"
    and "loads data = Some (config s)"
    and "config_received s"
    and "server_inbox s = (self_id s @ '' CONFIG '' @ data) # rest"
  shows "incoming_iteration loads dumps s =
           (Normal, s\<lparr>server_inbox := rest,
                      relay_queue := relay_queue s @ [''PING''],
                      trace := trace s @ [EvPush SERVER_RELAY ''PING'']\<rparr>)"
  using handle_config_same [of "s\<lparr>server_inbox := rest\<rparr>" loads data dumps]
        incoming_iteration_server [OF assms(4), of loads dumps] assms(1-3)
  by simp

theorem config_identical_only_ping_witness:
  "SP \<notin> set (self_id sample_state) \<and>
   sample_loads ''{honeypot}'' = Some (config sample_state) \<and>
   config_received sample_state \<and>
   incoming_iteration sample_loads sample_dumps
       (sample_state\<lparr>server_inbox := [''A1 CONFIG {honeypot}'']\<rparr>) =
     (Normal, sample_state\<lparr>server_inbox := [], relay_queue := [''PING''],
                           trace := [EvPush SERVER_RELAY ''PING'']\<rparr>)"
proof -
  let ?st = "sample_state\<lparr>server_inbox := [''A1 CONFIG {honeypot}'']\<rparr>"
  have a: "SP \<notin> set (self_id ?st)" by (simp add: sample_state_fields)
  have b: "sample_loads ''{honeypot}'' = Some (config ?st)"
    by (simp add: sample_state_fields sample_codec)
  have c: "config_received ?st" by (simp add: sample_state_fields)
  have d: "server_inbox ?st = (self_id ?st @ '' CONFIG '' @ ''{honeypot}'') # []"
    by (simp add: sample_state_fields)
  show ?thesis
    using config_identical_only_ping
            [where s = "?st" and loads = sample_loads and data = "''{honeypot}''" and rest = "[]"
               and dumps = sample_dumps, OF a b c d] a b c
    by (simp add: sample_state_fields)
qed

text \<open>
  The claim as stated fails: with the honeypot configuration applied and the latch set, the
  same document received again puts a \<open>PING\<close> on the empty relay queue, which the relay
  sends as \<open>PING A1\<close>.
\<close>

theorem config_identical_pushes_ping:
  "config_received (sample_state\<lparr>server_inbox := [''A1 CONFIG {honeypot}'']\<rparr>) \<and>
   sample_loads ''{honeypot}'' = Some (config (sample_state\<lparr>server_inbox := [''A1 CONFIG {honeypot}'']\<rparr>)) \<and>
   relay_queue (sample_state\<lparr>server_inbox := [''A1 CONFIG {honeypot}'']\<rparr>) = [] \<and>
   relay_queue (snd (incoming_iteration sample_loads sample_dumps
                       (sample_state\<lparr>server_inbox := [''A1 CONFIG {honeypot}'']\<rparr>))) = [''PING''] \<and>
   wire (snd (outgoing_iteration (snd (incoming_iteration sample_loads sample_dumps
                       (sample_state\<lparr>server_inbox := [''A1 CONFIG {honeypot}'']\<rparr>))))) = [''PING A1'']"
proof -
  let ?st = "sample_state\<lparr>server_inbox := [''A1 CONFIG {honeypot}'']\<rparr>"
  have d: "server_inbox ?st = (self_id ?st @ '' CONFIG '' @ ''{honeypot}'') # []"
    by (simp add: sample_state_fields)
  have h: "handle_server_message sample_loads sample_dumps (self_id ?st @ '' CONFIG '' @ ''{honeypot}'')
             (?st\<lparr>server_inbox := []\<rparr>) =
           (Normal, ?st\<lparr>server_inbox := [], relay_queue := [''PING''],
                         trace := [EvPush SERVER_RELAY ''PING'']\<rparr>)"
    using handle_config_same [of "?st\<lparr>server_inbox := []\<rparr>" sample_loads "''{honeypot}''" sample_dumps]
    by (simp add: sample_state_fields sample_codec)
  have i: "incoming_iteration sample_loads sample_dumps ?st =
           (Normal, ?st\<lparr>server_inbox := [], relay_queue := [''PING''],
                         trace := [EvPush SERVER_RELAY ''PING'']\<rparr>)"
    using incoming_iteration_server [OF d, of sample_loads sample_dumps] h by simp
  have p: "inject_id ''A1'' ''PING'' = Inr ''PING A1''"
    using inject_id_topic [of "''PING''" "''A1''"] by simp
  show ?thesis
    using p by (simp add: i sample_state_fields sample_codec outgoing_iteration_def)
qed

section \<open>Rejected messages\<close>

lemma filtered_loop_idle:
  "list_all (\<lambda>m. \<not> prefix (self_id s) m) (server_inbox s) \<Longrightarrow>
   incoming_server_comms loads dumps n s = (Normal, s)"
  by (induction n) (simp_all add: incoming_iteration_filtered and_then_def)

lemma handle_config_unparsed:
  assumes "SP \<notin> set (self_id s)"
    and "loads data = None"
  shows "handle_server_message loads dumps (self_id s @ '' CONFIG '' @ data) s =
           (Raised ValueError, s\<lparr>relay_queue := relay_queue s @ [''PING''],
                                  trace := trace s @ [EvPush SERVER_RELAY ''PING'']\<rparr>)"
proof -
  have sp: "py_split SP 2 (self_id s @ '' CONFIG '' @ data) = [self_id s, ''CONFIG'', data]"
    using split_command [of "self_id s" "''CONFIG''" data] assms(1) by simp
  show ?thesis
    using sp assms(2)
    by (simp add: handle_server_message_def send_zmq_push_def Let_def)
qed

lemma greenlet_raise:
  assumes "incoming_iteration loads dumps s = (Raised e, s')"
    and "drone s' \<noteq> None \<longrightarrow> drone_greenlet s' \<noteq> None"
  shows "incoming_msg_greenlet loads dumps (Suc n) s =
           (SysExit 1,
            s'\<lparr>drone := None,
               drone_greenlet := map_option (\<lambda>g. Killed) (drone_greenlet s'),
               trace := trace s' @ (if drone s' \<noteq> None then [EvDroneStop, EvGreenletKill] else []) @
                                   (if drone_greenlet s' \<noteq> None then [EvGreenletKill] else []) @
                                   [EvExit 1]\<rparr>)"
  using assms(1) on_exception_ok [OF assms(2)]
  by (simp add: incoming_msg_greenlet_def and_then_def)

lemma sample_split_longer_id:
  "py_split SP 2 ''A1B CONFIG {client}'' = [''A1B'', ''CONFIG'', ''{client}'']"
  using split_command [of "''A1B''" "''CONFIG''" "''{client}''"] by simp

text \<open>
  C2. A message from the server that is malformed, or whose leading identity token is not
  the agent's identity, is claimed to be discarded with processing going on. A message that
  does not begin with the agent's identity is dropped by the subscription and never reaches
  the loop: nothing changes. A delivered message that does not split into three fields, or
  whose first field is not the agent's identity, raises (\<open>ValueError\<close> from the
  unpacking, \<open>AssertionError\<close> from the \<open>assert\<close>) before any command is looked at:
  the configuration in memory and on disk is unchanged and nothing is pushed to the relay
  queue or the commands queue. A \<open>CONFIG\<close> command whose document does not parse raises
  \<open>ValueError\<close> after its \<open>PING\<close> was pushed. In both raising cases the exception
  ends the greenlet, \<open>on_exception\<close> stops the workload, and the process exits with
  status 1.
\<close>

theorem rejected_message_tears_down:
  assumes "drone s \<noteq> None \<longrightarrow> drone_greenlet s \<noteq> None"
  shows
    "(list_all (\<lambda>m. \<not> prefix (self_id s) m) (server_inbox s) \<longrightarrow>
        incoming_msg_greenlet loads dumps n s = (Normal, s)) \<and>
     (server_inbox s = m # rest \<and> prefix (self_id s) m \<and>
      (length (py_split SP 2 m) \<noteq> 3 \<or> hd (py_split SP 2 m) \<noteq> self_id s) \<longrightarrow>
        incoming_iteration loads dumps s =
          (Raised (if length (py_split SP 2 m) \<noteq> 3 then ValueError else AssertionError),
           s\<lparr>server_inbox := rest\<rparr>) \<and>
        incoming_msg_greenlet loads dumps (Suc n) s =
          (SysExit 1,
           s\<lparr>server_inbox := rest, drone := None,
             drone_greenlet := map_option (\<lambda>g. Killed) (drone_greenlet s),
             trace := trace s @ (if drone s \<noteq> None then [EvDroneStop, EvGreenletKill] else []) @
                                (if drone_greenlet s \<noteq> None then [EvGreenletKill] else []) @
                                [EvExit 1]\<rparr>)) \<and>
     (server_inbox s = (self_id s @ '' CONFIG '' @ data) # rest \<and> SP \<notin> set (self_id s) \<and>
      loads data = None \<longrightarrow>
        incoming_iteration loads dumps s =
          (Raised ValueError,
           s\<lparr>server_inbox := rest, relay_queue := relay_queue s @ [''PING''],
             trace := trace s @ [EvPush SERVER_RELAY ''PING'']\<rparr>) \<and>
        incoming_msg_greenlet loads dumps (Suc n) s =
          (SysExit 1,
           s\<lparr>server_inbox := rest, relay_queue := relay_queue s @ [''PING''], drone := None,
             drone_greenlet := map_option (\<lambda>g. Killed) (drone_greenlet s),
             trace := trace s @ [EvPush SERVER_RELAY ''PING''] @
                      (if drone s \<noteq> None then [EvDroneStop, EvGreenletKill] else []) @
                      (if drone_greenlet s \<noteq> None then [EvGreenletKill] else []) @
                      [EvExit 1]\<rparr>))"
proof (intro conjI impI)
  assume "list_all (\<lambda>m. \<not> prefix (self_id s) m) (server_inbox s)"
  then show "incoming_msg_greenlet loads dumps n s = (Normal, s)"
    by (simp add: incoming_msg_greenlet_def filtered_loop_idle)
next
  assume a: "server_inbox s = m # rest \<and> prefix (self_id s) m \<and>
             (length (py_split SP 2 m) \<noteq> 3 \<or> hd (py_split SP 2 m) \<noteq> self_id s)"
  let ?e = "if length (py_split SP 2 m) \<noteq> 3 then ValueError else AssertionError"
  have h: "handle_server_message loads dumps m (s\<lparr>server_inbox := rest\<rparr>) =
             (Raised ?e, s\<lparr>server_inbox := rest\<rparr>)"
  proof (cases "length (py_split SP 2 m) = 3")
    case True
    with a have "hd (py_split SP 2 m) \<noteq> self_id (s\<lparr>server_inbox := rest\<rparr>)" by simp
    from handle_wrong_id [OF True this] True show ?thesis by simp
  next
    case False
    from handle_malformed [OF False] False show ?thesis by simp
  qed
  from a have "incoming_iteration loads dumps s =
                 handle_server_message loads dumps m (s\<lparr>server_inbox := rest\<rparr>)"
    by (simp add: incoming_iteration_server)
  with h have i: "incoming_iteration loads dumps s = (Raised ?e, s\<lparr>server_inbox := rest\<rparr>)"
    by simp
  then show "incoming_iteration loads dumps s = (Raised ?e, s\<lparr>server_inbox := rest\<rparr>)" .
  have wf: "drone (s\<lparr>server_inbox := rest\<rparr>) \<noteq> None \<longrightarrow>
            drone_greenlet (s\<lparr>server_inbox := rest\<rparr>) \<noteq> None"
    using assms by simp
  from greenlet_raise [OF i wf, of n]
  show "incoming_msg_greenlet loads dumps (Suc n) s =
          (SysExit 1,
           s\<lparr>server_inbox := rest, drone := None,
             drone_greenlet := map_option (\<lambda>g. Killed) (drone_greenlet s),
             trace := trace s @ (if drone s \<noteq> None then [EvDroneStop, EvGreenletKill] else []) @
                                (if drone_greenlet s \<noteq> None then [EvGreenletKill] else []) @
                                [EvExit 1]\<rparr>)"
    by simp
next
  assume a: "server_inbox s = (self_id s @ '' CONFIG '' @ data) # rest \<and> SP \<notin> set (self_id s) \<and>
             loads data = None"
  let ?s1 = "s\<lparr>server_inbox := rest, relay_queue := relay_queue s @ [''PING''],
                trace := trace s @ [EvPush SERVER_RELAY ''PING'']\<rparr>"
  from a have "incoming_iteration loads dumps s =
                 handle_server_message loads dumps (self_id s @ '' CONFIG '' @ data)
                   (s\<lparr>server_inbox := rest\<rparr>)"
    by (simp add: incoming_iteration_addressed)
  with a handle_config_unparsed [of "s\<lparr>server_inbox := rest\<rparr>" loads data dumps]
  have i: "incoming_iteration loads dumps s = (Raised ValueError, ?s1)"
    by simp
  then show "incoming_iteration loads dumps s = (Raised ValueError, ?s1)" .
  have wf: "drone ?s1 \<noteq> None \<longrightarrow> drone_greenlet ?s1 \<noteq> None"
    using assms by simp
  from greenlet_raise [OF i wf, of n]
  show "incoming_msg_greenlet loads dumps (Suc n) s =
          (SysExit 1,
           s\<lparr>server_inbox := rest, relay_queue := relay_queue s @ [''PING''], drone := None,
             drone_greenlet := map_option (\<lambda>g. Killed) (drone_greenlet s),
             trace := trace s @ [EvPush SERVER_RELAY ''PING''] @
                      (if drone s \<noteq> None then [EvDroneStop, EvGreenletKill] else []) @
                      (if drone_greenlet s \<noteq> None then [EvGreenletKill] else []) @
                      [EvExit 1]\<rparr>)"
    by simp
qed

theorem rejected_message_tears_down_witness:
  "incoming_msg_greenlet sample_loads sample_dumps 3
       (sample_state\<lparr>server_inbox := [''B2 CONFIG {client}'']\<rparr>) =
     (Normal, sample_state\<lparr>server_inbox := [''B2 CONFIG {client}'']\<rparr>) \<and>
   prefix (self_id sample_state) ''A1B CONFIG {client}'' \<and>
   hd (py_split SP 2 ''A1B CONFIG {client}'') \<noteq> self_id sample_state \<and>
   incoming_iteration sample_loads sample_dumps
       (sample_state\<lparr>server_inbox := [''A1B CONFIG {client}'']\<rparr>) =
     (Raised AssertionError, sample_state\<lparr>server_inbox := []\<rparr>) \<and>
   incoming_msg_greenlet sample_loads sample_dumps 1
       (sample_state\<lparr>server_inbox := [''A1B CONFIG {client}'']\<rparr>) =
     (SysExit 1,
      sample_state\<lparr>server_inbox := [], drone := None, drone_greenlet := Some Killed,
                   trace := [EvDroneStop, EvGreenletKill, EvGreenletKill, EvExit 1]\<rparr>) \<and>
   length (py_split SP 2 ''A1 DELETE'') \<noteq> 3 \<and>
   incoming_msg_greenlet sample_loads sample_dumps 1 (sample_state\<lparr>server_inbox := [''A1 DELETE'']\<rparr>) =
     (SysExit 1,
      sample_state\<lparr>server_inbox := [], drone := None, drone_greenlet := Some Killed,
                   trace := [EvDroneStop, EvGreenletKill, EvGreenletKill, EvExit 1]\<rparr>) \<and>
   sample_loads ''notjson'' = None \<and>
   incoming_msg_greenlet sample_loads sample_dumps 1
       (sample_state\<lparr>server_inbox := [''A1 CONFIG notjson'']\<rparr>) =
     (SysExit 1,
      sample_state\<lparr>server_inbox := [], relay_queue := [''PING''], drone := None,
                   drone_greenlet := Some Killed,
                   trace := [EvPush SERVER_RELAY ''PING'', EvDroneStop, EvGreenletKill,
                             EvGreenletKill, EvExit 1]\<rparr>)"
proof -
  let ?sf = "sample_state\<lparr>server_inbox := [''B2 CONFIG {client}'']\<rparr>"
  let ?st = "sample_state\<lparr>server_inbox := [''A1B CONFIG {client}'']\<rparr>"
  let ?su = "sample_state\<lparr>server_inbox := [''A1 DELETE'']\<rparr>"
  let ?sv = "sample_state\<lparr>server_inbox := [''A1 CONFIG notjson'']\<rparr>"
  have wf: "drone ?sf \<noteq> None \<longrightarrow> drone_greenlet ?sf \<noteq> None"
           "drone ?st \<noteq> None \<longrightarrow> drone_greenlet ?st \<noteq> None"
           "drone ?su \<noteq> None \<longrightarrow> drone_greenlet ?su \<noteq> None"
           "drone ?sv \<noteq> None \<longrightarrow> drone_greenlet ?sv \<noteq> None"
    by (simp_all add: sample_state_fields)
  have f: "list_all (\<lambda>m. \<not> prefix (self_id ?sf) m) (server_inbox ?sf)"
    by (simp add: sample_state_fields)
  have t: "server_inbox ?st = ''A1B CONFIG {client}'' # [] \<and>
           prefix (self_id ?st) ''A1B CONFIG {client}'' \<and>
           (length (py_split SP 2 ''A1B CONFIG {client}'') \<noteq> 3 \<or>
            hd (py_split SP 2 ''A1B CONFIG {client}'') \<noteq> self_id ?st)"
    by (simp add: sample_state_fields sample_split_longer_id)
  have u: "server_inbox ?su = ''A1 DELETE'' # [] \<and>
           prefix (self_id ?su) ''A1 DELETE'' \<and>
           (length (py_split SP 2 ''A1 DELETE'') \<noteq> 3 \<or>
            hd (py_split SP 2 ''A1 DELETE'') \<noteq> self_id ?su)"
    by (simp add: sample_state_fields sample_split_short)
  have v: "server_inbox ?sv = (self_id ?sv @ '' CONFIG '' @ ''notjson'') # [] \<and>
           SP \<notin> set (self_id ?sv) \<and> sample_loads ''notjson'' = None"
    by (simp add: sample_state_fields sample_loads_def)
  note r1 = rejected_message_tears_down
              [where s = "?sf" and loads = sample_loads and dumps = sample_dumps and n = 3,
               OF wf(1), THEN conjunct1, rule_format, OF f]
  note r2 = rejected_message_tears_down
              [where s = "?st" and loads = sample_loads and dumps = sample_dumps and n = 0
                 and m = "''A1B CONFIG {client}''" and rest = "[]",
               OF wf(2), THEN conjunct2, THEN conjunct1, rule_format, OF t]
  note r3 = rejected_message_tears_down
              [where s = "?su" and loads = sample_loads and dumps = sample_dumps and n = 0
                 and m = "''A1 DELETE''" and rest = "[]",
               OF wf(3), THEN conjunct2, THEN conjunct1, rule_format, OF u]
  note r4 = rejected_message_tears_down
              [where s = "?sv" and loads = sample_loads and dumps = sample_dumps and n = 0
                 and data = "''notjson''" and rest = "[]",
               OF wf(4), THEN conjunct2, THEN conjunct2, rule_format, OF v]
  show ?thesis
    using r1 r2 r3 r4
    by (simp add: sample_state_fields sample_split_longer_id sample_split_short sample_loads_def)
qed

text \<open>
  The claim as stated fails: the agent \<open>A1\<close>, running a honeypot, is delivered a
  message that begins with its identity but is addressed to \<open>A1B\<close>, or the two-field
  message \<open>A1 DELETE\<close>; either way it stops its workload and exits with status 1.
\<close>

theorem rejected_message_stops_workload:
  "subscribed (self_id sample_state) ''A1B CONFIG {client}'' \<and>
   hd (py_split SP 2 ''A1B CONFIG {client}'') = ''A1B'' \<and>
   self_id sample_state = ''A1'' \<and>
   drone sample_state = Some (Honeypot, sample_honeypot) \<and>
   incoming_msg_greenlet sample_loads sample_dumps 1
       (sample_state\<lparr>server_inbox := [''A1B CONFIG {client}'']\<rparr>) =
     (SysExit 1,
      sample_state\<lparr>server_inbox := [], drone := None, drone_greenlet := Some Killed,
                   trace := [EvDroneStop, EvGreenletKill, EvGreenletKill, EvExit 1]\<rparr>) \<and>
   subscribed (self_id sample_state) ''A1 DELETE'' \<and>
   py_split SP 2 ''A1 DELETE'' = [''A1'', ''DELETE''] \<and>
   incoming_msg_greenlet sample_loads sample_dumps 1
       (sample_state\<lparr>server_inbox := [''A1 DELETE'']\<rparr>) =
     (SysExit 1,
      sample_state\<lparr>server_inbox := [], drone := None, drone_greenlet := Some Killed,
                   trace := [EvDroneStop, EvGreenletKill, EvGreenletKill, EvExit 1]\<rparr>)"
proof -
  let ?st = "sample_state\<lparr>server_inbox := [''A1B CONFIG {client}'']\<rparr>"
  let ?su = "sample_state\<lparr>server_inbox := [''A1 DELETE'']\<rparr>"
  have len: "length (py_split SP 2 ''A1B CONFIG {client}'') = 3"
    by (simp add: sample_split_longer_id)
  have hd: "hd (py_split SP 2 ''A1B CONFIG {client}'') \<noteq> self_id (?st\<lparr>server_inbox := []\<rparr>)"
    by (simp add: sample_split_longer_id sample_state_fields)
  have "incoming_iteration sample_loads sample_dumps ?st =
          handle_server_message sample_loads sample_dumps ''A1B CONFIG {client}''
            (?st\<lparr>server_inbox := []\<rparr>)"
    by (rule incoming_iteration_server) (simp_all add: sample_state_fields)
  with handle_wrong_id [OF len hd, of sample_loads sample_dumps]
  have i: "incoming_iteration sample_loads sample_dumps ?st =
             (Raised AssertionError, sample_state\<lparr>server_inbox := []\<rparr>)"
    by simp
  have short: "length (py_split SP 2 ''A1 DELETE'') \<noteq> 3"
    by (simp add: sample_split_short)
  have "incoming_iteration sample_loads sample_dumps ?su =
          handle_server_message sample_loads sample_dumps ''A1 DELETE''
            (?su\<lparr>server_inbox := []\<rparr>)"
    by (rule incoming_iteration_server) (simp_all add: sample_state_fields)
  with handle_malformed [OF short, of sample_loads sample_dumps "?su\<lparr>server_inbox := []\<rparr>"]
  have j: "incoming_iteration sample_loads sample_dumps ?su =
             (Raised ValueError, sample_state\<lparr>server_inbox := []\<rparr>)"
    by simp
  have wf: "drone (sample_state\<lparr>server_inbox := []\<rparr>) \<noteq> None \<longrightarrow>
            drone_greenlet (sample_state\<lparr>server_inbox := []\<rparr>) \<noteq> None"
    by (simp add: sample_state_fields)
  show ?thesis
    using greenlet_raise [OF i wf, of 0] greenlet_raise [OF j wf, of 0]
    by (simp add: subscribed_def sample_split_longer_id sample_split_short sample_state_fields)
qed

section \<open>Reconciliation of a new configuration\<close>

text \<open>
  C3. A \<open>CONFIG\<close> command with new content (a document that Python's \<open>!=\<close>
  tells from the configuration in memory, or the first document) is reconciled in the
  order: write the document to the configuration file, stop the old workload, start the
  new workload, set \<open>config_received\<close>. Afterwards the file holds the written document,
  the configuration in memory is what that file parses to, and the new workload, when the
  mode names one, was constructed with that same configuration. Here \<open>c'\<close> is what
  \<open>_start_drone\<close> reads back from the file: \<open>c\<close> itself when \<open>dumps\<close> and
  \<open>loads\<close> round-trip.
\<close>

theorem config_reconciliation_order:
  assumes "SP \<notin> set (self_id s)"
    and "loads data = Some c"
    and "\<not> py_eq (config s) c \<or> \<not> config_received s"
    and "fs_writable s"
    and "loads (dumps c) = Some c'"
    and "config_general c' ''mode'' = Inr m"
    and "drone s \<noteq> None \<longrightarrow> drone_greenlet s \<noteq> None"
    and "server_inbox s = (self_id s @ '' CONFIG '' @ data) # rest"
  shows "case incoming_iteration loads dumps s of
           (r, s') \<Rightarrow>
             r = Normal \<and>
             trace s' =
               trace s @ [EvPush SERVER_RELAY ''PING'', EvOpenW, EvWrite (dumps c)] @
               (if drone s \<noteq> None then [EvDroneStop, EvGreenletKill] else []) @
               (if drone_greenlet s \<noteq> None then [EvGreenletKill] else []) @
               (case select_mode m of None \<Rightarrow> [] | Some cls \<Rightarrow> [EvDroneStart cls c']) @
               [EvConfigReceivedSet] \<and>
             config_file s' = Some (dumps c) \<and>
             loads (dumps c) = Some (config s') \<and>
             config s' = c' \<and>
             drone s' = map_option (\<lambda>cls. (cls, config s')) (select_mode m) \<and>
             config_received s'"
  using iteration_config_new
          [where loads = loads and dumps = dumps and data = data and c = c and c' = c', OF assms] assms(5) by simp

theorem config_reconciliation_order_witness:
  "SP \<notin> set (self_id sample_state) \<and>
   sample_loads ''{client}'' = Some sample_client \<and>
   \<not> py_eq (config sample_state) sample_client \<and>
   sample_loads (sample_dumps sample_client) = Some sample_client \<and>
   config_general sample_client ''mode'' = Inr (JStr ''client'') \<and>
   (case incoming_iteration sample_loads sample_dumps
           (sample_state\<lparr>server_inbox := [''A1 CONFIG {client}'']\<rparr>) of
      (r, s') \<Rightarrow>
        r = Normal \<and>
        trace s' = [EvPush SERVER_RELAY ''PING'', EvOpenW, EvWrite ''{client}'',
                    EvDroneStop, EvGreenletKill, EvGreenletKill,
                    EvDroneStart Client sample_client, EvConfigReceivedSet] \<and>
        config_file s' = Some ''{client}'' \<and>
        config s' = sample_client \<and>
        drone s' = Some (Client, sample_client) \<and>
        config_received s')"
proof -
  let ?st = "sample_state\<lparr>server_inbox := [''A1 CONFIG {client}'']\<rparr>"
  have a: "SP \<notin> set (self_id ?st)" by (simp add: sample_state_fields)
  have b: "sample_loads ''{client}'' = Some sample_client" by (simp add: sample_codec)
  have c: "\<not> py_eq (config ?st) sample_client \<or> \<not> config_received ?st"
    using sample_py_differ by (simp add: sample_state_fields)
  have d: "fs_writable ?st" by (simp add: sample_state_fields)
  have e: "sample_loads (sample_dumps sample_client) = Some sample_client"
    by (simp add: sample_codec)
  have f: "config_general sample_client ''mode'' = Inr (JStr ''client'')"
    by (simp add: sample_general)
  have g: "drone ?st \<noteq> None \<longrightarrow> drone_greenlet ?st \<noteq> None"
    by (simp add: sample_state_fields)
  have h: "server_inbox ?st = (self_id ?st @ '' CONFIG '' @ ''{client}'') # []"
    by (simp add: sample_state_fields)
  show ?thesis
    using config_reconciliation_order
            [where s = "?st" and loads = sample_loads and data = "''{client}''" and c = sample_client
               and c' = sample_client and dumps = sample_dumps and m = "JStr ''client''" and rest = "[]",
             OF a b c d e f g h]
          a b e f sample_py_differ
    by (simp add: sample_state_fields sample_codec sample_select split: prod.splits)
qed

section \<open>How the configuration file is written\<close>

text \<open>
  C9. The configuration file is claimed to be replaced atomically (write-then-rename or
  equivalent). The code opens the file itself in mode \<open>'w'\<close>, which truncates it, and
  then writes the document: the file effects of a reconciliation are exactly that open and
  that write, the file is empty in between, and it holds the new document at the end.
\<close>

theorem config_file_overwritten_in_place:
  assumes "SP \<notin> set (self_id s)"
    and "loads data = Some c"
    and "\<not> py_eq (config s) c \<or> \<not> config_received s"
    and "fs_writable s"
    and "loads (dumps c) = Some c'"
    and "config_general c' ''mode'' = Inr m"
    and "drone s \<noteq> None \<longrightarrow> drone_greenlet s \<noteq> None"
    and "server_inbox s = (self_id s @ '' CONFIG '' @ data) # rest"
  shows "case incoming_iteration loads dumps s of
           (r, s') \<Rightarrow>
             r = Normal \<and>
             filter is_file_event (drop (length (trace s)) (trace s')) =
               [EvOpenW, EvWrite (dumps c)] \<and>
             file_observations (config_file s)
                 (filter is_file_event (drop (length (trace s)) (trace s'))) =
               [config_file s, Some [], Some (dumps c)] \<and>
             config_file s' = Some (dumps c)"
  using iteration_config_new
          [where loads = loads and dumps = dumps and data = data and c = c and c' = c', OF assms]
  by (simp split: option.splits)

theorem config_file_overwritten_in_place_witness:
  "SP \<notin> set (self_id sample_state) \<and>
   sample_loads ''{client}'' = Some sample_client \<and>
   \<not> py_eq (config sample_state) sample_client \<and>
   sample_loads (sample_dumps sample_client) = Some sample_client \<and>
   (case incoming_iteration sample_loads sample_dumps
           (sample_state\<lparr>server_inbox := [''A1 CONFIG {client}'']\<rparr>) of
      (r, s') \<Rightarrow>
        r = Normal \<and>
        filter is_file_event (trace s') = [EvOpenW, EvWrite ''{client}''] \<and>
        config_file s' = Some ''{client}'')"
proof -
  let ?st = "sample_state\<lparr>server_inbox := [''A1 CONFIG {client}'']\<rparr>"
  have a: "SP \<notin> set (self_id ?st)" by (simp add: sample_state_fields)
  have b: "sample_loads ''{client}'' = Some sample_client" by (simp add: sample_codec)
  have c: "\<not> py_eq (config ?st) sample_client \<or> \<not> config_received ?st"
    using sample_py_differ by (simp add: sample_state_fields)
  have d: "fs_writable ?st" by (simp add: sample_state_fields)
  have e: "sample_loads (sample_dumps sample_client) = Some sample_client"
    by (simp add: sample_codec)
  have f: "config_general sample_client ''mode'' = Inr (JStr ''client'')"
    by (simp add: sample_general)
  have g: "drone ?st \<noteq> None \<longrightarrow> drone_greenlet ?st \<noteq> None"
    by (simp add: sample_state_fields)
  have h: "server_inbox ?st = (self_id ?st @ '' CONFIG '' @ ''{client}'') # []"
    by (simp add: sample_state_fields)
  show ?thesis
    using config_file_overwritten_in_place
            [where s = "?st" and loads = sample_loads and data = "''{client}''" and c = sample_client
               and c' = sample_client and dumps = sample_dumps and m = "JStr ''client''" and rest = "[]",
             OF a b c d e f g h]
          a b e sample_py_differ
    by (simp add: sample_state_fields sample_codec split: prod.splits)
qed

text \<open>
  The claim as stated fails: replacing the honeypot document by the client document, the
  file passes through the empty content, which is neither document.
\<close>

theorem config_file_empty_between_open_and_write:
  "config_file (sample_state\<lparr>server_inbox := [''A1 CONFIG {client}'']\<rparr>) = Some ''{honeypot}'' \<and>
   sample_dumps sample_client = ''{client}'' \<and>
   fst (incoming_iteration sample_loads sample_dumps
          (sample_state\<lparr>server_inbox := [''A1 CONFIG {client}'']\<rparr>)) = Normal \<and>
   file_observations (Some ''{honeypot}'')
      (filter is_file_event
         (trace (snd (incoming_iteration sample_loads sample_dumps
                        (sample_state\<lparr>server_inbox := [''A1 CONFIG {client}'']\<rparr>))))) =
     [Some ''{honeypot}'', Some [], Some ''{client}'']"
proof -
  let ?st = "sample_state\<lparr>server_inbox := [''A1 CONFIG {client}'']\<rparr>"
  have a: "SP \<notin> set (self_id ?st)" by (simp add: sample_state_fields)
  have b: "sample_loads ''{client}'' = Some sample_client" by (simp add: sample_codec)
  have c: "\<not> py_eq (config ?st) sample_client \<or> \<not> config_received ?st"
    using sample_py_differ by (simp add: sample_state_fields)
  have d: "fs_writable ?st" by (simp add: sample_state_fields)
  have e: "sample_loads (sample_dumps sample_client) = Some sample_client"
    by (simp add: sample_codec)
  have f: "config_general sample_client ''mode'' = Inr (JStr ''client'')"
    by (simp add: sample_general)
  have g: "drone ?st \<noteq> None \<longrightarrow> drone_greenlet ?st \<noteq> None"
    by (simp add: sample_state_fields)
  have h: "server_inbox ?st = (self_id ?st @ '' CONFIG '' @ ''{client}'') # []"
    by (simp add: sample_state_fields)
  show ?thesis
    using iteration_config_new
            [where s = "?st" and loads = sample_loads and data = "''{client}''" and c = sample_client
               and c' = sample_client and dumps = sample_dumps and m = "JStr ''client''" and rest = "[]",
             OF a b c d e f g h]
    by (simp add: sample_state_fields sample_codec sample_select)
qed

end
